theory Spec2Isabelle
  imports Main "HOL-Library.Word"
begin

section \<open>The data streamer (\<^verbatim>\<open>QT_HUD_UI.cpp\<close>, lines 15 to 37)\<close>

text \<open>
  The production thread of \<^verbatim>\<open>DataStreamer::startStreaming\<close> does two observable things in
  every pass of its loop: it emits the signal \<^verbatim>\<open>dataChanged\<close> with a payload string, and it
  calls \<^verbatim>\<open>std::this_thread::sleep_for\<close> with a number of seconds.
\<close>

datatype effect = Emit string | Sleep nat

text \<open>
  A production thread: the local variable \<^verbatim>\<open>int counter\<close> of the lambda (a 32-bit machine
  integer, read as two's complement by \<open>sint\<close>; the increment wraps around) and the effects
  the thread has performed so far, oldest first.
\<close>

record thread =
  counter :: "32 word"
  trace :: "effect list"

text \<open>Decimal rendering of a number, as \<^verbatim>\<open>QString::arg(int)\<close> prints its argument in base 10.\<close>

definition digit_char :: "nat \<Rightarrow> char" where
  "digit_char d = ''0123456789'' ! d"

function string_of_nat :: "nat \<Rightarrow> string" where
  "string_of_nat n =
     (if n < 10 then [digit_char n] else string_of_nat (n div 10) @ [digit_char (n mod 10)])"
  by pat_completeness auto
termination
  by (relation "measure id") auto

declare string_of_nat.simps [simp del]

definition string_of_int :: "int \<Rightarrow> string" where
  "string_of_int i =
     (if i < 0 then CHR ''-'' # string_of_nat (nat (- i)) else string_of_nat (nat i))"

text \<open>
  \<^verbatim>\<open>QString::arg\<close> on a template whose only place marker is \<^verbatim>\<open>%1\<close>: every occurrence of
  the marker is replaced by the argument.
\<close>

fun QString_arg :: "string \<Rightarrow> string \<Rightarrow> string" where
  "QString_arg (c # d # cs) a =
     (if c = CHR ''%'' \<and> d = CHR ''1'' then a @ QString_arg cs a
      else c # QString_arg (d # cs) a)"
| "QString_arg cs a = cs"

text \<open>Line 28: \<^verbatim>\<open>QString("Data update: %1").arg(counter)\<close>, for the value the counter has.\<close>

definition data :: "32 word \<Rightarrow> string" where
  "data c = QString_arg ''Data update: %1'' (string_of_int (sint c))"

text \<open>
  Lines 28 to 30, one pass of the loop: the payload is built from the old value of the
  counter, the counter is incremented (\<^verbatim>\<open>counter++\<close>), the signal is emitted, and the
  thread sleeps for one second.
\<close>

definition loop_body :: "thread \<Rightarrow> thread" where
  "loop_body t =
     (let d = data (counter t);
          t = t\<lparr>counter := counter t + 1\<rparr>;
          t = t\<lparr>trace := trace t @ [Emit d]\<rparr>;
          t = t\<lparr>trace := trace t @ [Sleep 1]\<rparr>
      in t)"

text \<open>Line 26: the thread enters its lambda with \<^verbatim>\<open>int counter = 0\<close> and has done nothing yet.\<close>

definition thread_entry :: thread where
  "thread_entry = \<lparr>counter = 0, trace = []\<rparr>"

text \<open>The state of a thread after \<open>n\<close> passes of the loop.\<close>

fun iterations :: "nat \<Rightarrow> thread \<Rightarrow> thread" where
  "iterations 0 t = t"
| "iterations (Suc n) t = iterations n (loop_body t)"

text \<open>
  Line 27, \<^verbatim>\<open>while (true) { ... }\<close>: the loop has no exit, so the function that maps the
  state at the loop head to the state in which the loop returns is defined as a partial
  function; \<open>None\<close> is the loop that never returns.
\<close>

partial_function (option) while_true :: "thread \<Rightarrow> thread option" where
  "while_true t = while_true (loop_body t)"

text \<open>The whole lambda handed to \<^verbatim>\<open>QThread::create\<close> (lines 25 to 32).\<close>

definition thread_lambda :: "thread option" where
  "thread_lambda = while_true thread_entry"

text \<open>What can be read off a trace: the payloads emitted, in order.\<close>

fun emissions :: "effect list \<Rightarrow> string list" where
  "emissions [] = []"
| "emissions (Emit d # es) = d # emissions es"
| "emissions (Sleep s # es) = emissions es"

text \<open>
  The seconds slept from the head of a trace up to its next emission, and, for every
  emission of a trace, the seconds slept after it before the next one.
\<close>

fun delay_until_emit :: "effect list \<Rightarrow> nat" where
  "delay_until_emit [] = 0"
| "delay_until_emit (Emit d # es) = 0"
| "delay_until_emit (Sleep s # es) = s + delay_until_emit es"

fun gaps :: "effect list \<Rightarrow> nat list" where
  "gaps [] = []"
| "gaps (Emit d # es) = delay_until_emit es # gaps es"
| "gaps (Sleep s # es) = gaps es"


text \<open>The number carried by the emission with index \<open>n\<close> (counted from 0) of a new thread.\<close>

definition seqno :: "nat \<Rightarrow> int" where
  "seqno n = sint (counter (iterations n thread_entry))"

section \<open>The window (\<^verbatim>\<open>QT_HUD_UI.cpp\<close>, lines 40 to 119)\<close>

datatype WidgetAttribute =
  WA_Disabled | WA_NoSystemBackground | WA_StyledBackground | WA_TranslucentBackground
  | WA_DeleteOnClose

datatype WindowType =
  Widget | Window | Dialog | FramelessWindowHint | WindowStaysOnTopHint

datatype AlignmentFlag = AlignLeft_AlignVCenter | AlignCenter

text \<open>A font: \<open>None\<close> as point size is the size of the application's default font.\<close>

record QFont =
  pointSize :: "int option"
  underline :: bool

text \<open>
  A label shows either a text or a pixmap (here the name of the file the pixmap was
  constructed from): setting one clears the other.
\<close>

record QLabel =
  fixedSize :: "(int \<times> int) option"
  font :: QFont
  label_text :: string
  pixmap :: "string option"
  alignment :: AlignmentFlag

datatype Direction = LeftToRight | TopToBottom

text \<open>An item of a box layout refers to a label or to a nested layout by its address.\<close>

datatype item = WidgetItem nat | StretchItem | LayoutItem nat

record QBoxLayout =
  direction :: Direction
  items :: "item list"

text \<open>
  The widget under construction, with the objects that its constructor allocates by
  \<^verbatim>\<open>new\<close>: labels and layouts live in two stores, and a pointer is an index into its store.
  The constructor changes layouts through pointers after it has handed them on
  (\<^verbatim>\<open>mainLayout\<close> belongs to the widget from line 51), which the stores keep visible.
\<close>

record SimpleUI =
  windowTitle :: string
  widget_size :: "int \<times> int"
  styleSheet :: string
  attributes :: "WidgetAttribute set"
  windowFlags :: "WindowType set"
  layout :: "nat option"
  visible :: bool
  labels :: "QLabel list"
  layouts :: "QBoxLayout list"

text \<open>The base class constructor \<^verbatim>\<open>QWidget(parent)\<close> with \<^verbatim>\<open>parent = nullptr\<close>.\<close>

definition QWidget_ctor :: SimpleUI where
  "QWidget_ctor =
     \<lparr>windowTitle = [], widget_size = (640, 480), styleSheet = [], attributes = {},
      windowFlags = {}, layout = None, visible = False, labels = [], layouts = []\<rparr>"

definition QFont_ctor :: QFont where
  "QFont_ctor = \<lparr>pointSize = None, underline = False\<rparr>"

definition setPointSize :: "int \<Rightarrow> QFont \<Rightarrow> QFont" where
  "setPointSize n f = f\<lparr>pointSize := Some n\<rparr>"

definition setUnderline :: "bool \<Rightarrow> QFont \<Rightarrow> QFont" where
  "setUnderline b f = f\<lparr>underline := b\<rparr>"

definition setWindowTitle :: "string \<Rightarrow> SimpleUI \<Rightarrow> SimpleUI" where
  "setWindowTitle s w = w\<lparr>windowTitle := s\<rparr>"

definition resize :: "int \<Rightarrow> int \<Rightarrow> SimpleUI \<Rightarrow> SimpleUI" where
  "resize a b w = w\<lparr>widget_size := (a, b)\<rparr>"

text \<open>\<^verbatim>\<open>setStyleSheet\<close> replaces the style sheet of the widget as a whole.\<close>

definition setStyleSheet :: "string \<Rightarrow> SimpleUI \<Rightarrow> SimpleUI" where
  "setStyleSheet s w = w\<lparr>styleSheet := s\<rparr>"

definition setAttribute :: "WidgetAttribute \<Rightarrow> SimpleUI \<Rightarrow> SimpleUI" where
  "setAttribute a w = w\<lparr>attributes := insert a (attributes w)\<rparr>"

text \<open>\<^verbatim>\<open>setWindowFlags\<close> replaces the window flags as a whole.\<close>

definition setWindowFlags :: "WindowType set \<Rightarrow> SimpleUI \<Rightarrow> SimpleUI" where
  "setWindowFlags f w = w\<lparr>windowFlags := f\<rparr>"

text \<open>A widget that has a layout keeps it: \<^verbatim>\<open>setLayout\<close> then changes nothing.\<close>

definition setLayout :: "nat \<Rightarrow> SimpleUI \<Rightarrow> SimpleUI" where
  "setLayout l w = (case layout w of None \<Rightarrow> w\<lparr>layout := Some l\<rparr> | Some l' \<Rightarrow> w)"

text \<open>
  \<^verbatim>\<open>new\<close> in two parts: the address that the next allocation returns, and the store after
  the allocation.
\<close>

definition fresh_layout :: "SimpleUI \<Rightarrow> nat" where
  "fresh_layout w = length (layouts w)"

definition new_QBoxLayout :: "Direction \<Rightarrow> SimpleUI \<Rightarrow> SimpleUI" where
  "new_QBoxLayout d w = w\<lparr>layouts := layouts w @ [\<lparr>direction = d, items = []\<rparr>]\<rparr>"

definition fresh_label :: "SimpleUI \<Rightarrow> nat" where
  "fresh_label w = length (labels w)"

definition new_QLabel :: "SimpleUI \<Rightarrow> SimpleUI" where
  "new_QLabel w =
     w\<lparr>labels := labels w @
        [\<lparr>fixedSize = None, font = QFont_ctor, label_text = [], pixmap = None,
          alignment = AlignLeft_AlignVCenter\<rparr>]\<rparr>"

definition upd_label :: "nat \<Rightarrow> (QLabel \<Rightarrow> QLabel) \<Rightarrow> SimpleUI \<Rightarrow> SimpleUI" where
  "upd_label p f w = w\<lparr>labels := (labels w)[p := f (labels w ! p)]\<rparr>"

definition setFixedSize :: "nat \<Rightarrow> int \<Rightarrow> int \<Rightarrow> SimpleUI \<Rightarrow> SimpleUI" where
  "setFixedSize p a b = upd_label p (\<lambda>l. l\<lparr>fixedSize := Some (a, b)\<rparr>)"

definition setFont :: "nat \<Rightarrow> QFont \<Rightarrow> SimpleUI \<Rightarrow> SimpleUI" where
  "setFont p f = upd_label p (\<lambda>l. l\<lparr>font := f\<rparr>)"

definition setText :: "nat \<Rightarrow> string \<Rightarrow> SimpleUI \<Rightarrow> SimpleUI" where
  "setText p s = upd_label p (\<lambda>l. l\<lparr>label_text := s, pixmap := None\<rparr>)"

definition setPixmap :: "nat \<Rightarrow> string \<Rightarrow> SimpleUI \<Rightarrow> SimpleUI" where
  "setPixmap p file = upd_label p (\<lambda>l. l\<lparr>pixmap := Some file, label_text := []\<rparr>)"

definition setAlignment :: "nat \<Rightarrow> AlignmentFlag \<Rightarrow> SimpleUI \<Rightarrow> SimpleUI" where
  "setAlignment p a = upd_label p (\<lambda>l. l\<lparr>alignment := a\<rparr>)"

definition add_item :: "nat \<Rightarrow> item \<Rightarrow> SimpleUI \<Rightarrow> SimpleUI" where
  "add_item l it w =
     w\<lparr>layouts := (layouts w)[l := (layouts w ! l)\<lparr>items := items (layouts w ! l) @ [it]\<rparr>]\<rparr>"

definition addStretch :: "nat \<Rightarrow> SimpleUI \<Rightarrow> SimpleUI" where
  "addStretch l = add_item l StretchItem"

definition addWidget :: "nat \<Rightarrow> nat \<Rightarrow> SimpleUI \<Rightarrow> SimpleUI" where
  "addWidget l p = add_item l (WidgetItem p)"

definition addLayout :: "nat \<Rightarrow> nat \<Rightarrow> SimpleUI \<Rightarrow> SimpleUI" where
  "addLayout l l' = add_item l (LayoutItem l')"

text \<open>
  The constructor \<^verbatim>\<open>SimpleUI::SimpleUI\<close>, lines 43 to 118, statement by statement.
  \<^verbatim>\<open>new QVBoxLayout(this)\<close> (line 51) allocates the layout and installs it on the widget.
  \<^verbatim>\<open>setUnderline(&free)\<close> (lines 58 and 61) passes the address of a function where a
  \<^verbatim>\<open>bool\<close> is expected; the address is not null, so the argument is \<^verbatim>\<open>true\<close>.
\<close>

definition SimpleUI_ctor :: "SimpleUI \<Rightarrow> SimpleUI" where
  \<open>SimpleUI_ctor this =
     (let this = setWindowTitle ''Advanced Qt UI'' this;
          this = resize 800 600 this;
          this = setStyleSheet ''background:transparent;'' this;
          this = setStyleSheet ''border: 4px solid black;'' this;
          this = setAttribute WA_TranslucentBackground this;
          this = setWindowFlags {FramelessWindowHint} this;

          mainLayout = fresh_layout this; this = new_QBoxLayout TopToBottom this;
          this = setLayout mainLayout this;
          topLayout = fresh_layout this; this = new_QBoxLayout LeftToRight this;

          bottomLayout = fresh_layout this; this = new_QBoxLayout LeftToRight this;
          rightLayout = fresh_layout this; this = new_QBoxLayout TopToBottom this;
          Street_font = QFont_ctor;
          Street_font = setPointSize 40 Street_font;
          Street_font = setUnderline True Street_font;
          Message_font = QFont_ctor;
          Message_font = setPointSize 24 Message_font;
          Message_font = setUnderline True Message_font;

          upperTextBox = fresh_label this; this = new_QLabel this;
          this = setFixedSize upperTextBox 750 100 this;
          this = setFont upperTextBox Street_font this;
          this = setText upperTextBox ''<font color="black"> Next Street Name </font>'' this;
          this = setAlignment upperTextBox AlignCenter this;
          this = addStretch topLayout this;
          this = addWidget topLayout upperTextBox this;
          this = addStretch topLayout this;

          imageLabel = fresh_label this; this = new_QLabel this;
          pixmap = ''Arrow_Left.png'';
          this = setPixmap imageLabel pixmap this;
          this = setFixedSize imageLabel 500 500 this;

          rightTextBox1 = fresh_label this; this = new_QLabel this;
          this = setFixedSize rightTextBox1 500 100 this;
          this = setFont rightTextBox1 Message_font this;
          this = setText rightTextBox1
            ''<font color="red"> <outline-color="black"> High Priority Messages </font>'' this;
          rightTextBox2 = fresh_label this; this = new_QLabel this;
          this = setFixedSize rightTextBox2 500 100 this;
          this = setFont rightTextBox2 Message_font this;
          this = setText rightTextBox2
            ''<font color="gold"> <outline-color="black"> Medium Priority Messages </font>'' this;
          rightTextBox3 = fresh_label this; this = new_QLabel this;
          this = setFixedSize rightTextBox3 500 100 this;
          this = setFont rightTextBox3 Message_font this;
          this = setText rightTextBox3
            ''<font color="green"> <outline-color="black"> Low Priority Messages </font>'' this;

          this = addWidget rightLayout rightTextBox1 this;
          this = addWidget rightLayout rightTextBox2 this;
          this = addWidget rightLayout rightTextBox3 this;

          this = addWidget bottomLayout imageLabel this;
          this = addStretch bottomLayout this;
          this = addLayout bottomLayout rightLayout this;

          this = addLayout mainLayout topLayout this;
          this = addStretch mainLayout this;
          this = addLayout mainLayout bottomLayout this;
          this = setLayout mainLayout this
      in this)\<close>

text \<open>
  The labels that a layout manages, nested layouts included, in layout order. The first
  argument bounds the nesting depth that is followed; the number of layouts in the store
  is enough for every store without a cycle.
\<close>

fun layout_labels :: "nat \<Rightarrow> QBoxLayout list \<Rightarrow> nat \<Rightarrow> nat list" where
  "layout_labels 0 ls l = []"
| "layout_labels (Suc k) ls l =
     (if l < length ls
      then concat (map (\<lambda>it. case it of WidgetItem p \<Rightarrow> [p] | StretchItem \<Rightarrow> []
                                 | LayoutItem l' \<Rightarrow> layout_labels k ls l') (items (ls ! l)))
      else [])"

text \<open>The labels that the window contains: those its layout manages.\<close>

definition window_labels :: "SimpleUI \<Rightarrow> QLabel list" where
  "window_labels w =
     (case layout w of None \<Rightarrow> []
      | Some l \<Rightarrow> map (\<lambda>p. labels w ! p) (layout_labels (length (layouts w)) (layouts w) l))"

text \<open>The colour of a rich text that starts with a \<^verbatim>\<open>font\<close> tag with a \<^verbatim>\<open>color\<close> attribute.\<close>

definition font_color :: "string \<Rightarrow> string option" where
  \<open>font_color s =
     (let tag = ''<font color="''
      in if take (length tag) s = tag
         then Some (takeWhile (\<lambda>c. c \<noteq> CHR ''"'') (drop (length tag) s))
         else None)\<close>

section \<open>The program (\<^verbatim>\<open>QT_HUD_UI.cpp\<close>, lines 122 to 127)\<close>

text \<open>
  A \<^verbatim>\<open>DataStreamer\<close> object: the slots connected to its signal \<^verbatim>\<open>dataChanged\<close>, in the order
  of connection, and the threads that its \<^verbatim>\<open>startStreaming\<close> has created and started.
  The class has no other state, in particular no flag that says whether it is streaming.
\<close>

record DataStreamer =
  receivers :: "(string \<Rightarrow> SimpleUI \<Rightarrow> SimpleUI) list"
  workers :: "thread list"

text \<open>Line 21, the constructor: nothing is connected, nothing runs.\<close>

definition DataStreamer_ctor :: DataStreamer where
  "DataStreamer_ctor = \<lparr>receivers = [], workers = []\<rparr>"

text \<open>
  Lines 23 to 33: \<^verbatim>\<open>QThread::create(...)->start()\<close> creates a thread for the lambda and
  starts it. The function returns \<^verbatim>\<open>void\<close>, tests nothing and throws nothing.
\<close>

definition startStreaming :: "DataStreamer \<Rightarrow> DataStreamer" where
  "startStreaming ds = ds\<lparr>workers := workers ds @ [thread_entry]\<rparr>"

text \<open>Emitting \<^verbatim>\<open>dataChanged(data)\<close> calls every connected slot with the payload.\<close>

definition dataChanged :: "DataStreamer \<Rightarrow> string \<Rightarrow> SimpleUI \<Rightarrow> SimpleUI" where
  "dataChanged ds d ui = fold (\<lambda>slot u. slot d u) (receivers ds) ui"

text \<open>
  The running process: whether the \<^verbatim>\<open>QApplication\<close> exists, the window of \<^verbatim>\<open>main\<close>, the
  \<^verbatim>\<open>DataStreamer\<close> objects constructed so far, and whether the event loop has been entered.
\<close>

record process =
  app :: bool
  window :: "SimpleUI option"
  streamers :: "DataStreamer list"
  event_loop :: bool

definition process_start :: process where
  "process_start = \<lparr>app = False, window = None, streamers = [], event_loop = False\<rparr>"

definition QApplication_ctor :: "process \<Rightarrow> process" where
  "QApplication_ctor p = p\<lparr>app := True\<rparr>"

definition SimpleUI_window :: "process \<Rightarrow> process" where
  "SimpleUI_window p = p\<lparr>window := Some (SimpleUI_ctor QWidget_ctor)\<rparr>"

definition window_show :: "process \<Rightarrow> process" where
  "window_show p = p\<lparr>window := map_option (\<lambda>w. w\<lparr>visible := True\<rparr>) (window p)\<rparr>"

definition QApplication_exec :: "process \<Rightarrow> process" where
  "QApplication_exec p = p\<lparr>event_loop := True\<rparr>"

text \<open>\<^verbatim>\<open>main\<close>, lines 122 to 127, statement by statement.\<close>

definition main :: "process \<Rightarrow> process" where
  "main p =
     (let p = QApplication_ctor p;
          p = SimpleUI_window p;
          p = window_show p;
          p = QApplication_exec p
      in p)"

text \<open>
  Background threads run interleaved with the rest of the process. One step of the
  interleaving is one pass of the loop of thread \<open>j\<close> of streamer \<open>i\<close>: its emission reaches
  the slots connected to that streamer, which act on the window. A step that names a
  thread that does not exist does nothing.
\<close>

definition worker_iteration :: "nat \<Rightarrow> nat \<Rightarrow> process \<Rightarrow> process" where
  "worker_iteration i j p =
     (if i < length (streamers p) \<and> j < length (workers (streamers p ! i))
      then
        (let ds = streamers p ! i;
             t = workers ds ! j;
             win = map_option (dataChanged ds (data (counter t))) (window p);
             ds = ds\<lparr>workers := (workers ds)[j := loop_body t]\<rparr>
         in p\<lparr>window := win, streamers := (streamers p)[i := ds]\<rparr>)
      else p)"

fun run_schedule :: "(nat \<times> nat) list \<Rightarrow> process \<Rightarrow> process" where
  "run_schedule [] p = p"
| "run_schedule ((i, j) # s) p = run_schedule s (worker_iteration i j p)"

text \<open>Every payload that any thread of the process has emitted.\<close>

definition all_emissions :: "process \<Rightarrow> string list" where
  "all_emissions p =
     concat (map (\<lambda>ds. concat (map (\<lambda>t. emissions (trace t)) (workers ds))) (streamers p))"

section \<open>Properties of the production loop\<close>

lemma data_eq: "data c = ''Data update: '' @ string_of_int (sint c)"
  by (simp add: data_def)

lemma loop_body_counter: "counter (loop_body t) = counter t + 1"
  by (simp add: loop_body_def)

lemma loop_body_trace: "trace (loop_body t) = trace t @ [Emit (data (counter t)), Sleep 1]"
  by (simp add: loop_body_def)

lemma iterations_counter: "counter (iterations n t) = counter t + of_nat n"
  by (induction n arbitrary: t) (simp_all add: loop_body_counter)

lemma iterations_Suc: "iterations (Suc n) t = loop_body (iterations n t)"
  by (induction n arbitrary: t) simp_all

lemma iterations_trace:
  "trace (iterations n t) =
     trace t @ concat (map (\<lambda>k. [Emit (data (counter t + of_nat k)), Sleep 1]) [0..<n])"
proof (induction n)
  case 0
  show ?case by simp
next
  case (Suc n)
  have "trace (iterations (Suc n) t) = trace (loop_body (iterations n t))"
    by (simp only: iterations_Suc)
  also have "\<dots> = trace (iterations n t) @ [Emit (data (counter t + of_nat n)), Sleep 1]"
    by (simp add: loop_body_trace iterations_counter)
  finally show ?case using Suc.IH by simp
qed

lemma thread_entry_trace:
  "trace (iterations n thread_entry) =
     concat (map (\<lambda>k. [Emit (data (of_nat k)), Sleep 1]) [0..<n])"
  by (simp add: iterations_trace thread_entry_def)

lemma emissions_append: "emissions (es @ fs) = emissions es @ emissions fs"
  by (induction es rule: emissions.induct) simp_all

lemma emissions_pairs: "emissions (concat (map (\<lambda>k. [Emit (f k), Sleep s]) ks)) = map f ks"
  by (induction ks) simp_all

lemma delay_pairs: "delay_until_emit (concat (map (\<lambda>k. [Emit (f k), Sleep s]) ks)) = 0"
  by (cases ks) simp_all

lemma gaps_pairs: "gaps (concat (map (\<lambda>k. [Emit (f k), Sleep s]) ks)) = replicate (length ks) s"
  by (induction ks) (simp_all add: delay_pairs)

lemma sint_small: "n < 2 ^ 31 \<Longrightarrow> sint (of_nat n :: 32 word) = int n"
  by (simp add: signed_of_nat signed_take_bit_int_eq_self)

lemma data_small: "n < 2 ^ 31 \<Longrightarrow> data (of_nat n) = ''Data update: '' @ string_of_nat n"
  by (simp add: data_eq sint_small string_of_int_def)

lemma seqno_eq: "seqno n = sint (of_nat n :: 32 word)"
  by (simp add: seqno_def iterations_counter thread_entry_def)

lemma while_true_None: "while_true t = None"
proof (cases "while_true t")
  case None
  then show ?thesis .
next
  case (Some y)
  have "False"
    by (rule while_true.raw_induct [where P = "\<lambda>_ _. False", OF _ Some])
  then show ?thesis ..
qed



subsection \<open>The payload sequence\<close>

text \<open>
  Claim C1, as stated: for every \<open>N\<close>, the emission with index \<open>N\<close> of a started thread
  carries the number \<open>N\<close>. This fails where the 32-bit counter has wrapped around: the
  emission with index \<open>2147483648\<close> carries \<open>-2147483648\<close>.
\<close>

theorem payload_sequence_wraps_counterexample:
  "emissions (trace (iterations 2147483649 thread_entry)) ! 2147483648 =
     ''Data update: -2147483648'' \<and>
   emissions (trace (iterations 2147483649 thread_entry)) ! 2147483648 \<noteq>
     ''Data update: 2147483648''"
  by (simp add: thread_entry_trace emissions_pairs data_eq string_of_int_def
      string_of_nat.simps digit_char_def)

text \<open>
  Claim C1, amended: every call of \<^verbatim>\<open>startStreaming\<close>, whatever the streamer has started
  before, starts a thread whose counter is 0, and for every \<open>N\<close> below \<open>2 ^ 31\<close> the
  emission with index \<open>N\<close> of that thread is the text \<^verbatim>\<open>Data update: \<close> followed by \<open>N\<close> in
  decimal: no gap, no duplicate, increasing. (The class has no operation that stops a
  thread; a restart is another call of \<^verbatim>\<open>startStreaming\<close>.)
\<close>

theorem startStreaming_payload_sequence:
  "N < n \<Longrightarrow> N < 2 ^ 31 \<Longrightarrow>
   last (workers (startStreaming ds)) = thread_entry \<and> counter thread_entry = 0 \<and>
   emissions (trace (iterations n (last (workers (startStreaming ds))))) ! N =
     ''Data update: '' @ string_of_nat N"
  by (simp add: startStreaming_def thread_entry_trace emissions_pairs data_small)
     (simp add: thread_entry_def)

text \<open>
  The amended claim C1 at a streamer that has been started once already: the fourth
  emission of the thread of the second start carries 3.
\<close>

theorem startStreaming_payload_sequence_witness:
  "(3::nat) < 5 \<and> (3::nat) < 2 ^ 31 \<and>
   emissions (trace (iterations 5
     (last (workers (startStreaming (startStreaming DataStreamer_ctor)))))) ! 3 =
     ''Data update: 3''"
  using startStreaming_payload_sequence [of 3 5 "startStreaming DataStreamer_ctor"]
  by (simp add: string_of_nat.simps digit_char_def startStreaming_def)

subsection \<open>Starting twice\<close>

text \<open>
  Claim C2, as stated: a second start without a stop in between fails and begins no second
  production loop. In the code the streamer that has one running thread after its first
  start has two after the second.
\<close>

theorem second_start_counterexample:
  "workers (startStreaming DataStreamer_ctor) = [thread_entry] \<and>
   workers (startStreaming (startStreaming DataStreamer_ctor)) = [thread_entry, thread_entry]"
  by (simp add: startStreaming_def DataStreamer_ctor_def)

text \<open>
  Claim C2, amended: \<^verbatim>\<open>startStreaming\<close> has no error result and no test whether a thread is
  running. Every call, also one on a streamer that is streaming already, returns normally
  with one more production thread, at its entry, beside the threads started before, and
  leaves the connections of the signal as they are.
\<close>

theorem startStreaming_always_starts:
  "workers (startStreaming ds) = workers ds @ [thread_entry] \<and>
   receivers (startStreaming ds) = receivers ds"
  by (simp add: startStreaming_def)

subsection \<open>The loop never ends\<close>

text \<open>
  Claim C3: the production loop never terminates. The thread's lambda, and the loop from
  any state, do not return; after any number of passes from any state the next pass adds
  one more emission; and a new thread has emitted \<open>n\<close> payloads after \<open>n\<close> passes, for
  every \<open>n\<close>.
\<close>

theorem production_loop_never_terminates:
  "thread_lambda = None \<and> while_true t = None \<and>
   emissions (trace (iterations (Suc n) t)) =
     emissions (trace (iterations n t)) @ [data (counter (iterations n t))] \<and>
   length (emissions (trace (iterations n thread_entry))) = n"
  by (simp add: thread_lambda_def while_true_None iterations_Suc loop_body_trace
      emissions_append thread_entry_trace emissions_pairs del: iterations.simps)

subsection \<open>The delay between emissions\<close>

text \<open>
  Claim C5, as stated: no delay effect lies between successive emissions. In the code the
  first two emissions of a thread are each followed by a sleep of one second.
\<close>

theorem unthrottled_counterexample:
  "trace (iterations 2 thread_entry) =
     [Emit ''Data update: 0'', Sleep 1, Emit ''Data update: 1'', Sleep 1] \<and>
   gaps (trace (iterations 2 thread_entry)) = [1, 1] \<and>
   gaps (trace (iterations 2 thread_entry)) \<noteq> [0, 0]"
  by (simp add: eval_nat_numeral loop_body_def thread_entry_def data_eq string_of_int_def
      string_of_nat.simps digit_char_def)

text \<open>
  Claim C5, amended: the loop is throttled by a fixed delay. Every pass emits its event
  and then sleeps for one second, so the trace of \<open>n\<close> passes is \<open>n\<close> times an emission
  followed by \<^verbatim>\<open>Sleep 1\<close>, and one second of sleep follows every emission.
\<close>

theorem production_loop_throttled:
  "trace (iterations n thread_entry) =
     concat (map (\<lambda>k. [Emit (data (of_nat k)), Sleep 1]) [0..<n]) \<and>
   gaps (trace (iterations n thread_entry)) = replicate n 1"
  by (simp add: thread_entry_trace gaps_pairs)



subsection \<open>The counter wraps around\<close>

text \<open>
  Claim C9, as stated: the numbers carried are strictly increasing only for the first
  \<open>2 ^ 31 - 1\<close> emissions. The emission after those, the one with index \<open>2147483647\<close>,
  still carries a number greater than the one before it: the increasing run is one
  emission longer than the claim says.
\<close>

theorem counter_wrap_bound_counterexample:
  "seqno 2147483646 = 2147483646 \<and> seqno 2147483647 = 2147483647 \<and>
   seqno 2147483646 < seqno 2147483647"
  by (simp add: seqno_eq)

text \<open>
  Claim C9, amended: the counter is a 32-bit integer that every pass increments without a
  test. The numbers carried by the first \<open>2 ^ 31\<close> emissions (index below \<open>2 ^ 31\<close>) are
  the indices themselves and so strictly increasing; the emission with index
  \<open>2 ^ 31 - 1\<close> carries \<open>2 ^ 31 - 1\<close>, its increment wraps, and the emission with index
  \<open>2 ^ 31\<close> carries \<open>- (2 ^ 31)\<close>, which is smaller: there the order is lost. Read as
  unsigned, the counter after \<open>n\<close> passes is \<open>n\<close> modulo \<open>2 ^ 32\<close>.
\<close>

theorem counter_wraps:
  "(i < j \<and> j < 2 ^ 31 \<longrightarrow> seqno i < seqno j) \<and>
   (k < 2 ^ 31 \<longrightarrow> seqno k = int k) \<and>
   (k < 2 ^ 31 - 1 \<longrightarrow> seqno (Suc k) = seqno k + 1) \<and>
   seqno (2 ^ 31 - 1) = 2 ^ 31 - 1 \<and> seqno (2 ^ 31) = - (2 ^ 31) \<and>
   seqno (2 ^ 31) < seqno (2 ^ 31 - 1) \<and>
   counter (loop_body t) = counter t + 1 \<and>
   unat (counter (iterations n thread_entry)) = n mod 2 ^ 32"
proof -
  have small: "seqno m = int m" if "m < 2 ^ 31" for m
    using that by (simp only: seqno_eq sint_small)
  have mono: "i < j \<and> j < 2 ^ 31 \<longrightarrow> seqno i < seqno j"
  proof
    assume ij: "i < j \<and> j < 2 ^ 31"
    then have "i < 2 ^ 31" by simp
    with ij have "seqno i = int i" "seqno j = int j"
      by (simp_all only: small)
    with ij show "seqno i < seqno j" by simp
  qed
  have a: "k < 2 ^ 31 \<longrightarrow> seqno k = int k"
    by (rule impI) (rule small)
  have a': "k < 2 ^ 31 - 1 \<longrightarrow> seqno (Suc k) = seqno k + 1"
  proof
    assume k: "k < 2 ^ 31 - 1"
    then have "k < 2 ^ 31" "Suc k < 2 ^ 31" by simp_all
    then have "seqno k = int k" "seqno (Suc k) = int (Suc k)"
      by (simp_all only: small)
    then show "seqno (Suc k) = seqno k + 1" by simp
  qed
  have b: "seqno (2 ^ 31 - 1) = 2 ^ 31 - 1"
    by (simp add: seqno_eq)
  have c: "seqno (2 ^ 31) = - (2 ^ 31)"
    by (simp add: seqno_eq)
  have d: "unat (counter (iterations n thread_entry)) = n mod 2 ^ 32"
    by (simp add: iterations_counter thread_entry_def unat_of_nat)
  have e: "counter (loop_body t) = counter t + 1"
    by (rule loop_body_counter)
  from b c have f: "seqno (2 ^ 31) < seqno (2 ^ 31 - 1)"
    by simp
  from mono a a' b c f e d show ?thesis
    by (intro conjI)
qed

text \<open>
  The amended claim C9 at the sixth and seventh emission: they carry 5 and 6, in
  increasing order.
\<close>

theorem counter_wraps_witness:
  "(5::nat) < 6 \<and> (6::nat) < 2 ^ 31 \<and> (5::nat) < 2 ^ 31 - 1 \<and>
   seqno 5 < seqno 6 \<and> seqno 5 = 5 \<and> seqno (Suc 5) = seqno 5 + 1"
proof -
  have h1: "(5::nat) < 6 \<and> (6::nat) < 2 ^ 31" by simp
  have h2: "(5::nat) < 2 ^ 31" by simp
  have h3: "(5::nat) < 2 ^ 31 - 1" by simp
  note w = counter_wraps [where i = 5 and j = 6 and k = 5]
  from w h1 have r1: "seqno 5 < seqno 6" by blast
  from w h2 have r2: "seqno 5 = int 5" by blast
  from w h3 have r3: "seqno (Suc 5) = seqno 5 + 1" by blast
  from h1 h3 r1 r2 r3 show ?thesis by simp
qed

section \<open>Properties of the window\<close>

lemmas ui_ops = setWindowTitle_def resize_def setStyleSheet_def setAttribute_def
  setWindowFlags_def setLayout_def new_QBoxLayout_def new_QLabel_def fresh_layout_def
  fresh_label_def upd_label_def setFixedSize_def setFont_def setText_def setPixmap_def
  setAlignment_def add_item_def addStretch_def addWidget_def addLayout_def QFont_ctor_def
  setPointSize_def setUnderline_def QWidget_ctor_def

text \<open>The widget that the constructor leaves behind, with its two stores.\<close>

lemma SimpleUI_ctor_eval:
  \<open>SimpleUI_ctor QWidget_ctor =
    \<lparr>windowTitle = ''Advanced Qt UI'', widget_size = (800, 600),
     styleSheet = ''border: 4px solid black;'',
     attributes = {WA_TranslucentBackground},
     windowFlags = {FramelessWindowHint}, layout = Some 0, visible = False,
     labels =
       [\<lparr>fixedSize = Some (750, 100), font = \<lparr>pointSize = Some 40, underline = True\<rparr>,
         label_text = ''<font color="black"> Next Street Name </font>'',
         pixmap = None, alignment = AlignCenter\<rparr>,
        \<lparr>fixedSize = Some (500, 500), font = \<lparr>pointSize = None, underline = False\<rparr>,
         label_text = [], pixmap = Some ''Arrow_Left.png'',
         alignment = AlignLeft_AlignVCenter\<rparr>,
        \<lparr>fixedSize = Some (500, 100), font = \<lparr>pointSize = Some 24, underline = True\<rparr>,
         label_text =
           ''<font color="red"> <outline-color="black"> High Priority Messages </font>'',
         pixmap = None, alignment = AlignLeft_AlignVCenter\<rparr>,
        \<lparr>fixedSize = Some (500, 100), font = \<lparr>pointSize = Some 24, underline = True\<rparr>,
         label_text =
           ''<font color="gold"> <outline-color="black"> Medium Priority Messages </font>'',
         pixmap = None, alignment = AlignLeft_AlignVCenter\<rparr>,
        \<lparr>fixedSize = Some (500, 100), font = \<lparr>pointSize = Some 24, underline = True\<rparr>,
         label_text =
           ''<font color="green"> <outline-color="black"> Low Priority Messages </font>'',
         pixmap = None, alignment = AlignLeft_AlignVCenter\<rparr>],
     layouts =
       [\<lparr>direction = TopToBottom, items = [LayoutItem 1, StretchItem, LayoutItem 2]\<rparr>,
        \<lparr>direction = LeftToRight, items = [StretchItem, WidgetItem 0, StretchItem]\<rparr>,
        \<lparr>direction = LeftToRight, items = [WidgetItem 1, StretchItem, LayoutItem 3]\<rparr>,
        \<lparr>direction = TopToBottom, items = [WidgetItem 2, WidgetItem 3, WidgetItem 4]\<rparr>]\<rparr>\<close>
  by (simp add: SimpleUI_ctor_def ui_ops Let_def cong: let_weak_cong)

lemma layout_labels_ctor:
  "layout_labels 4 (layouts (SimpleUI_ctor QWidget_ctor)) 0 = [0, 1, 2, 3, 4]"
  by (simp add: SimpleUI_ctor_eval eval_nat_numeral)

lemma window_labels_ctor:
  "window_labels (SimpleUI_ctor QWidget_ctor) = labels (SimpleUI_ctor QWidget_ctor)"
proof -
  have "layout_labels (length (layouts (SimpleUI_ctor QWidget_ctor)))
          (layouts (SimpleUI_ctor QWidget_ctor)) 0 = [0, 1, 2, 3, 4]"
    using layout_labels_ctor by (simp add: SimpleUI_ctor_eval)
  then show ?thesis
    by (simp add: window_labels_def) (simp add: SimpleUI_ctor_eval)
qed

text \<open>
  Claim C7: after the constructor the window flags are the frameless hint, the attribute
  for a translucent background is set, and the window contains five labels: the street
  name (black), the arrow image \<^verbatim>\<open>Arrow_Left.png\<close>, and the messages of high, medium and
  low priority in red, gold and green.
\<close>

theorem SimpleUI_ctor_window:
  \<open>windowFlags (SimpleUI_ctor QWidget_ctor) = {FramelessWindowHint} \<and>
   WA_TranslucentBackground \<in> attributes (SimpleUI_ctor QWidget_ctor) \<and>
   length (window_labels (SimpleUI_ctor QWidget_ctor)) = 5 \<and>
   map label_text (window_labels (SimpleUI_ctor QWidget_ctor)) =
     [''<font color="black"> Next Street Name </font>'',
      [],
      ''<font color="red"> <outline-color="black"> High Priority Messages </font>'',
      ''<font color="gold"> <outline-color="black"> Medium Priority Messages </font>'',
      ''<font color="green"> <outline-color="black"> Low Priority Messages </font>''] \<and>
   map pixmap (window_labels (SimpleUI_ctor QWidget_ctor)) =
     [None, Some ''Arrow_Left.png'', None, None, None] \<and>
   map (\<lambda>l. font_color (label_text l)) (window_labels (SimpleUI_ctor QWidget_ctor)) =
     [Some ''black'', None, Some ''red'', Some ''gold'', Some ''green'']\<close>
  by (simp add: window_labels_ctor) (simp add: SimpleUI_ctor_eval font_color_def)

text \<open>
  Claim C8: the second \<^verbatim>\<open>setStyleSheet\<close> replaces the first. After the constructor the
  style sheet is the border rule and nothing else, the transparent background of the
  first call is gone, and what is left for translucency is the widget attribute.
\<close>

theorem SimpleUI_ctor_styleSheet:
  "styleSheet (SimpleUI_ctor QWidget_ctor) = ''border: 4px solid black;'' \<and>
   styleSheet (SimpleUI_ctor QWidget_ctor) \<noteq> ''background:transparent;'' \<and>
   setStyleSheet s2 (setStyleSheet s1 w) = setStyleSheet s2 w \<and>
   WA_TranslucentBackground \<in> attributes (SimpleUI_ctor QWidget_ctor)"
  by (simp add: SimpleUI_ctor_eval) (simp add: setStyleSheet_def)

section \<open>Properties of the program\<close>

lemma receivers_startStreaming: "receivers (startStreaming ds) = receivers ds"
  by (simp add: startStreaming_def)

lemma receivers_started: "receivers ((startStreaming ^^ n) DataStreamer_ctor) = []"
  by (induction n) (simp_all add: receivers_startStreaming DataStreamer_ctor_def)

lemma dataChanged_unconnected: "receivers ds = [] \<Longrightarrow> dataChanged ds d ui = ui"
  by (simp add: dataChanged_def)

lemma worker_iteration_window:
  "list_all (\<lambda>ds. receivers ds = []) (streamers p) \<Longrightarrow>
   window (worker_iteration i j p) = window p"
proof (cases "i < length (streamers p) \<and> j < length (workers (streamers p ! i))")
  case False
  show ?thesis by (simp only: worker_iteration_def if_not_P [OF False])
next
  case True
  assume "list_all (\<lambda>ds. receivers ds = []) (streamers p)"
  with True have "receivers (streamers p ! i) = []"
    by (simp add: list_all_length)
  then have "dataChanged (streamers p ! i) d = (\<lambda>ui. ui)" for d
    by (simp add: dataChanged_def fun_eq_iff)
  with True show ?thesis
    by (simp add: worker_iteration_def Let_def option.map_ident)
qed

lemma worker_iteration_receivers:
  "list_all (\<lambda>ds. receivers ds = []) (streamers p) \<Longrightarrow>
   list_all (\<lambda>ds. receivers ds = []) (streamers (worker_iteration i j p))"
  by (auto simp: worker_iteration_def Let_def list_all_length nth_list_update)

lemma run_schedule_window:
  "list_all (\<lambda>ds. receivers ds = []) (streamers p) \<Longrightarrow> window (run_schedule s p) = window p"
proof (induction s arbitrary: p)
  case Nil
  show ?case by simp
next
  case (Cons x s)
  obtain i j where x: "x = (i, j)" by (cases x)
  have "window (run_schedule s (worker_iteration i j p)) = window (worker_iteration i j p)"
    by (rule Cons.IH) (rule worker_iteration_receivers [OF Cons.prems])
  then show ?case
    by (simp add: x worker_iteration_window [OF Cons.prems])
qed

text \<open>
  Claim C4: nothing is connected to \<^verbatim>\<open>dataChanged\<close>. A streamer made by the constructor
  and started any number of times has no receiver, an emission of its signal leaves the
  window as it is, and so does every interleaving of the passes of the threads of any
  number of such streamers: the window of the process, with its five labels, stays what
  it was.
\<close>

theorem dataChanged_leaves_window_unchanged:
  "receivers ((startStreaming ^^ n) DataStreamer_ctor) = [] \<and>
   dataChanged ((startStreaming ^^ n) DataStreamer_ctor) d ui = ui \<and>
   window (run_schedule s
     (p\<lparr>streamers := map (\<lambda>n. (startStreaming ^^ n) DataStreamer_ctor) ns\<rparr>)) = window p"
proof -
  have "list_all (\<lambda>ds. receivers ds = [])
          (streamers (p\<lparr>streamers := map (\<lambda>n. (startStreaming ^^ n) DataStreamer_ctor) ns\<rparr>))"
    by (simp add: list_all_iff receivers_started)
  from run_schedule_window [OF this] show ?thesis
    by (simp add: receivers_started dataChanged_unconnected)
qed

text \<open>
  The statement above is about runs in which threads do emit: with one started streamer
  beside the window of \<^verbatim>\<open>main\<close>, two passes of its thread emit two payloads.
\<close>

lemma started_streamer_emits:
  "all_emissions (run_schedule [(0, 0), (0, 0)]
     (main process_start\<lparr>streamers := [startStreaming DataStreamer_ctor]\<rparr>)) =
   [''Data update: 0'', ''Data update: 1'']"
  by (simp add: all_emissions_def worker_iteration_def startStreaming_def DataStreamer_ctor_def
      thread_entry_def loop_body_def data_eq string_of_int_def string_of_nat.simps digit_char_def
      Let_def)

lemma run_schedule_no_streamers: "streamers p = [] \<Longrightarrow> run_schedule s p = p"
proof (induction s arbitrary: p)
  case Nil
  show ?case by simp
next
  case (Cons x s)
  obtain i j where x: "x = (i, j)" by (cases x)
  from Cons.prems have "worker_iteration i j p = p"
    by (simp add: worker_iteration_def)
  with Cons show ?case by (simp add: x)
qed

lemma main_eval:
  "main process_start =
     \<lparr>app = True, window = Some ((SimpleUI_ctor QWidget_ctor)\<lparr>visible := True\<rparr>),
      streamers = [], event_loop = True\<rparr>"
  by (simp add: main_def process_start_def QApplication_ctor_def SimpleUI_window_def
      window_show_def QApplication_exec_def)

text \<open>
  Claim C10: \<^verbatim>\<open>main\<close> constructs no \<^verbatim>\<open>DataStreamer\<close> and starts no thread. Whatever the
  interleaving, the process consists of the application object, the constructed and shown
  window and the running event loop, it has no streamer, and nothing is ever emitted.
\<close>

theorem main_never_streams:
  "run_schedule s (main process_start) =
     \<lparr>app = True, window = Some ((SimpleUI_ctor QWidget_ctor)\<lparr>visible := True\<rparr>),
      streamers = [], event_loop = True\<rparr> \<and>
   streamers (run_schedule s (main process_start)) = [] \<and>
   all_emissions (run_schedule s (main process_start)) = []"
proof -
  have "streamers (main process_start) = []"
    by (simp add: main_eval)
  then have "run_schedule s (main process_start) = main process_start"
    by (rule run_schedule_no_streamers)
  then show ?thesis
    by (simp add: main_eval all_emissions_def)
qed

end
